theory Spec2Isabelle
  imports Complex_Main "HOL-Library.Word"
begin

section \<open>The medical image analyzer script (app.py)\<close>

text \<open>
  The program is one Streamlit script. Streamlit executes it from top to bottom on every
  interaction of the user (a \<^emph>\<open>run\<close>); what survives between runs is the resource cache of
  \<^verbatim>\<open>st.cache_resource\<close>, the dictionary \<^verbatim>\<open>st.session_state\<close> and the file system. The
  script catches no exception: a statement that raises ends the run there, and the effects
  of the statements before it stay.

  The libraries the script calls (ultralytics, PIL) are not part of the repository. Each of
  their calls is a parameter of the model, collected in an environment record; a call that
  raises is the value \<open>None\<close> (\<open>False\<close> for a call without a value), and the script turns it
  into the error of the statement that made the call. \<^verbatim>\<open>plot()\<close> returns its exception
  itself, since it reads the labels and can raise their \<open>KeyError\<close>.
\<close>

subsection \<open>Data\<close>

type_synonym bytes = "8 word list"

text \<open>
  One element of \<^verbatim>\<open>r.boxes\<close>: \<open>cls\<close> is the value of \<^verbatim>\<open>int(box.cls[0])\<close>, \<open>conf\<close> the value of
  \<^verbatim>\<open>float(box.conf[0])\<close> (a real number here; rounding of floats is not modelled).
\<close>

record box =
  cls :: int
  conf :: real

text \<open>One element of the list that \<^verbatim>\<open>model(path)\<close> returns.\<close>

record result =
  boxes :: "box list"

text \<open>
  The errors of a run, named after the Python exception or the statement that raises:
  \<^item> \<open>YoloLoadError\<close>: \<^verbatim>\<open>YOLO(model_path)\<close> raised (line 69);
  \<^item> \<open>ImageOpenError\<close>: \<^verbatim>\<open>Image.open(uploaded_file)\<close> raised (line 84);
  \<^item> \<open>ImageShowError\<close>: \<^verbatim>\<open>st.image(image, ...)\<close> raised (line 85), where the pixel data
    of the lazily opened image is first decoded;
  \<^item> \<open>ImageSaveError\<close>: \<^verbatim>\<open>image.save(temp_file.name)\<close> raised (line 93);
  \<^item> \<open>ModelCallError\<close>: \<^verbatim>\<open>model(temp_file.name)\<close> raised (line 94);
  \<^item> \<open>PlotError\<close>: \<^verbatim>\<open>results[0].plot()\<close> raised for a reason of its own (line 99);
  \<^item> \<open>IndexError\<close>: \<^verbatim>\<open>results[0]\<close> on an empty list (lines 99, 133);
  \<^item> \<open>KeyError c\<close>: \<^verbatim>\<open>model.names[c]\<close> with \<open>c\<close> not a key (lines 128, 134, and inside
    \<^verbatim>\<open>plot()\<close> at line 99);
  \<^item> \<open>FileNotFoundError\<close>: \<^verbatim>\<open>os.remove\<close> of a path that does not exist (line 156).
\<close>

datatype error =
    YoloLoadError
  | ImageOpenError
  | ImageShowError
  | ImageSaveError
  | ModelCallError
  | PlotError
  | IndexError
  | KeyError int
  | FileNotFoundError

text \<open>
  The loaded model: calling it on a written image file gives a list of results or raises;
  \<open>names\<close> is the dictionary \<^verbatim>\<open>model.names\<close> from class index to label.
\<close>

record 'f yolo =
  predict :: "'f \<Rightarrow> result list option"
  names :: "int \<rightharpoonup> string"

text \<open>
  The library calls: \<open>'i\<close> is an opened PIL image, \<open>'f\<close> the content of a written image
  file, \<open>'a\<close> the array that \<^verbatim>\<open>plot()\<close> draws. \<open>st_image\<close> is the display of the uploaded
  image at line 85 (false: it raises). \<open>plot\<close> is \<^verbatim>\<open>results[0].plot()\<close>: it takes the labels
  of the result, which are those of the model.
\<close>

record ('i, 'f, 'a) env =
  YOLO :: "string \<Rightarrow> 'f yolo option"
  Image_open :: "bytes \<Rightarrow> 'i option"
  st_image :: "'i \<Rightarrow> bool"
  image_save :: "'i \<Rightarrow> 'f option"
  plot :: "(int \<rightharpoonup> string) \<Rightarrow> result \<Rightarrow> error + 'a"

text \<open>
  The four keys that lines 103 to 106 store in \<^verbatim>\<open>st.session_state\<close>. They are written
  together, so \<^verbatim>\<open>'results' in st.session_state\<close> holds exactly when the record is there.
  (\<^verbatim>\<open>result_pil\<close> is \<^verbatim>\<open>Image.fromarray(result_img)\<close> and carries nothing of its own.)
\<close>

record 'a stored =
  results :: "result list"
  result_img :: 'a
  temp_file_path :: nat

text \<open>
  What survives a run: the cached model, the session state and the temporary files on
  disk (a path is a number).
\<close>

record ('f, 'a) app_state =
  model_cache :: "'f yolo option"
  session :: "'a stored option"
  files :: "nat list"

text \<open>The three metrics of the detection summary (lines 133 to 139).\<close>

record summary =
  total_detections :: nat
  top_class :: string
  top_conf :: real

text \<open>
  What a run has written on the page: the uploaded image (line 85), the annotated image
  (line 118), one line per detected box (line 128), the summary, the download button.
\<close>

record ('i, 'a) page =
  uploaded_image :: "'i option"
  result_image :: "'a option"
  detected :: "(string \<times> real) list"
  metrics :: "summary option"
  download :: "'a option"

definition empty_page :: "('i, 'a) page" where
  "empty_page =
     \<lparr>uploaded_image = None, result_image = None, detected = [], metrics = None,
      download = None\<rparr>"

text \<open>The outcome of a run: the state it leaves, the page, and the exception that ended it.\<close>

record ('i, 'f, 'a) outcome =
  final :: "('f, 'a) app_state"
  shown :: "('i, 'a) page"
  raised :: "error option"

subsection \<open>Loading the model (lines 66 to 71)\<close>

text \<open>
  \<^verbatim>\<open>st.cache_resource\<close>: the body of \<^verbatim>\<open>load_model\<close> runs when the cache is empty and its
  value is cached; a raised exception is not cached.
\<close>

definition load_model ::
  "('i, 'f, 'a) env \<Rightarrow> ('f, 'a) app_state \<Rightarrow> error + ('f yolo \<times> ('f, 'a) app_state)" where
  "load_model e s =
     (case model_cache s of
        Some m \<Rightarrow> Inr (m, s)
      | None \<Rightarrow>
          (case YOLO e ''best.pt'' of
             None \<Rightarrow> Inl YoloLoadError
           | Some m \<Rightarrow> Inr (m, s\<lparr>model_cache := Some m\<rparr>)))"

subsection \<open>The upload column (lines 80 to 106)\<close>

text \<open>
  \<^verbatim>\<open>tempfile.NamedTemporaryFile(delete=False, suffix=".jpg")\<close> creates a file under a name
  that no file has; leaving the \<^verbatim>\<open>with\<close> block closes the file and does not delete it.
\<close>

definition fresh_name :: "nat list \<Rightarrow> nat" where
  "fresh_name fs = Suc (foldr max fs 0)"

definition analyze_image ::
  "('i, 'f, 'a) env \<Rightarrow> 'f yolo \<Rightarrow> 'i \<Rightarrow> ('f, 'a) app_state \<Rightarrow>
     ('f, 'a) app_state \<times> error option" where
  "analyze_image e m im s =
     (let p = fresh_name (files s);
          s1 = s\<lparr>files := files s @ [p]\<rparr>
      in case image_save e im of
           None \<Rightarrow> (s1, Some ImageSaveError)
         | Some f \<Rightarrow>
             (case predict m f of
                None \<Rightarrow> (s1, Some ModelCallError)
              | Some rs \<Rightarrow>
                  (case rs of
                     [] \<Rightarrow> (s1, Some IndexError)
                   | r0 # _ \<Rightarrow>
                       (case plot e (names m) r0 of
                          Inl x \<Rightarrow> (s1, Some x)
                        | Inr img \<Rightarrow>
                            (s1\<lparr>session :=
                                  Some \<lparr>results = rs, result_img = img,
                                        temp_file_path = p\<rparr>\<rparr>,
                             None)))))"

definition col1 ::
  "('i, 'f, 'a) env \<Rightarrow> 'f yolo \<Rightarrow> bytes option \<Rightarrow> bool \<Rightarrow> ('f, 'a) app_state \<Rightarrow>
     ('i, 'f, 'a) outcome" where
  "col1 e m uploaded_file pressed s =
     (case uploaded_file of
        None \<Rightarrow> \<lparr>final = s, shown = empty_page, raised = None\<rparr>
      | Some bs \<Rightarrow>
          (case Image_open e bs of
             None \<Rightarrow> \<lparr>final = s, shown = empty_page, raised = Some ImageOpenError\<rparr>
           | Some im \<Rightarrow>
               if st_image e im
               then (let pg = empty_page\<lparr>uploaded_image := Some im\<rparr>
                     in if pressed
                        then (case analyze_image e m im s of
                                (s', x) \<Rightarrow> \<lparr>final = s', shown = pg, raised = x\<rparr>)
                        else \<lparr>final = s, shown = pg, raised = None\<rparr>)
               else \<lparr>final = s, shown = empty_page, raised = Some ImageShowError\<rparr>))"

subsection \<open>The result column (lines 108 to 156)\<close>

text \<open>
  The loop of lines 125 to 128 over the boxes of one result: each box writes one line; the
  first class index without a label raises \<open>KeyError\<close>, and the lines written before stay.
\<close>

fun write_boxes ::
  "(int \<rightharpoonup> string) \<Rightarrow> box list \<Rightarrow> (string \<times> real) list \<Rightarrow>
     (string \<times> real) list \<times> error option" where
  "write_boxes nm [] out = (out, None)"
| "write_boxes nm (b # bs) out =
     (case nm (cls b) of
        None \<Rightarrow> (out, Some (KeyError (cls b)))
      | Some n \<Rightarrow> write_boxes nm bs (out @ [(n, conf b)]))"

text \<open>The loop of line 124 over the results.\<close>

fun write_results ::
  "(int \<rightharpoonup> string) \<Rightarrow> result list \<Rightarrow> (string \<times> real) list \<Rightarrow>
     (string \<times> real) list \<times> error option" where
  "write_results nm [] out = (out, None)"
| "write_results nm (r # rs) out =
     (case write_boxes nm (boxes r) out of
        (out', Some x) \<Rightarrow> (out', Some x)
      | (out', None) \<Rightarrow> write_results nm rs out')"

text \<open>Lines 133 to 135: the summary reads the first result only.\<close>

definition summarize :: "(int \<rightharpoonup> string) \<Rightarrow> result list \<Rightarrow> error + summary" where
  "summarize nm rs =
     (case rs of
        [] \<Rightarrow> Inl IndexError
      | r0 # _ \<Rightarrow>
          (let total = length (boxes r0)
           in if total > 0
              then (case nm (cls (hd (boxes r0))) of
                      None \<Rightarrow> Inl (KeyError (cls (hd (boxes r0))))
                    | Some n \<Rightarrow>
                        Inr \<lparr>total_detections = total, top_class = n,
                             top_conf = conf (hd (boxes r0))\<rparr>)
              else Inr \<lparr>total_detections = total, top_class = ''N/A'', top_conf = 0\<rparr>))"

text \<open>Line 156: \<^verbatim>\<open>os.remove\<close> deletes the file, or raises when there is none.\<close>

definition os_remove :: "nat \<Rightarrow> nat list \<Rightarrow> error + nat list" where
  "os_remove p fs = (if p \<in> set fs then Inr (removeAll p fs) else Inl FileNotFoundError)"

definition col2 ::
  "'f yolo \<Rightarrow> ('f, 'a) app_state \<Rightarrow> ('i, 'a) page \<Rightarrow> ('i, 'f, 'a) outcome" where
  "col2 m s pg =
     (case session s of
        None \<Rightarrow> \<lparr>final = s, shown = pg, raised = None\<rparr>
      | Some st \<Rightarrow>
          (let pg1 = pg\<lparr>result_image := Some (result_img st)\<rparr>
           in case write_results (names m) (results st) [] of
                (ls, Some x) \<Rightarrow> \<lparr>final = s, shown = pg1\<lparr>detected := ls\<rparr>, raised = Some x\<rparr>
              | (ls, None) \<Rightarrow>
                  (let pg2 = pg1\<lparr>detected := ls\<rparr>
                   in case summarize (names m) (results st) of
                        Inl x \<Rightarrow> \<lparr>final = s, shown = pg2, raised = Some x\<rparr>
                      | Inr sm \<Rightarrow>
                          (let pg3 = pg2\<lparr>metrics := Some sm,
                                         download := Some (result_img st)\<rparr>
                           in case os_remove (temp_file_path st) (files s) of
                                Inl x \<Rightarrow> \<lparr>final = s, shown = pg3, raised = Some x\<rparr>
                              | Inr fs \<Rightarrow>
                                  \<lparr>final = s\<lparr>files := fs\<rparr>, shown = pg3,
                                   raised = None\<rparr>))))"

subsection \<open>One run of the script\<close>

text \<open>
  \<open>uploaded_file\<close> is the value of the file uploader, \<open>pressed\<close> the value of the button
  "Analyze Image" (true in the run that the click starts).
\<close>

definition run ::
  "('i, 'f, 'a) env \<Rightarrow> bytes option \<Rightarrow> bool \<Rightarrow> ('f, 'a) app_state \<Rightarrow>
     ('i, 'f, 'a) outcome" where
  "run e uploaded_file pressed s =
     (case load_model e s of
        Inl x \<Rightarrow> \<lparr>final = s, shown = empty_page, raised = Some x\<rparr>
      | Inr (m, s0) \<Rightarrow>
          (let o1 = col1 e m uploaded_file pressed s0
           in case raised o1 of
                Some x \<Rightarrow> o1
              | None \<Rightarrow> col2 m (final o1) (shown o1)))"


subsection \<open>The filter of the specification\<close>


text \<open>A written line reports a box: it carries the box's label and its confidence.\<close>

definition reports :: "(int \<rightharpoonup> string) \<Rightarrow> box \<Rightarrow> string \<times> real \<Rightarrow> bool" where
  "reports nm b l \<longleftrightarrow> nm (cls b) = Some (fst l) \<and> conf b = snd l"

subsection \<open>Test doubles for the libraries\<close>

text \<open>
  A small stand-in for PIL and the model, for concrete runs. An upload that starts with the
  byte FF opens as an RGB image (a JPEG), one that starts with 89 as an RGBA image (a PNG
  with an alpha channel), anything else (the empty upload too) is no image. An image is
  opened lazily: an upload of fewer than four bytes opens, and its pixel data is cut short,
  so that showing or writing it raises. An RGBA image cannot be written as JPEG. The
  model knows the single label 0 and returns the results it is given. Drawing reads the
  labels, as the library's does, and raises \<open>KeyError\<close> at the first box without one;
  \<open>can_plot\<close> says whether drawing succeeds otherwise.
\<close>

datatype mode = RGB | RGBA

definition stub_open :: "bytes \<Rightarrow> (mode \<times> bool) option" where
  "stub_open bs =
     (case bs of
        [] \<Rightarrow> None
      | b # rest \<Rightarrow>
          if b = 0xFF then Some (RGB, 3 \<le> length rest)
          else if b = 0x89 then Some (RGBA, 3 \<le> length rest)
          else None)"

definition stub_show :: "mode \<times> bool \<Rightarrow> bool" where
  "stub_show im = snd im"

definition stub_save :: "mode \<times> bool \<Rightarrow> mode option" where
  "stub_save im = (if snd im \<and> fst im = RGB then Some RGB else None)"

definition stub_plot :: "bool \<Rightarrow> (int \<rightharpoonup> string) \<Rightarrow> result \<Rightarrow> error + nat" where
  "stub_plot can_plot nm r =
     (case filter (\<lambda>b. nm (cls b) = None) (boxes r) of
        b # _ \<Rightarrow> Inl (KeyError (cls b))
      | [] \<Rightarrow> if can_plot then Inr (length (boxes r)) else Inl PlotError)"

definition stub_model :: "result list \<Rightarrow> mode yolo" where
  "stub_model rs =
     \<lparr>predict = (\<lambda>f. Some rs), names = (\<lambda>c. if c = 0 then Some ''tumor'' else None)\<rparr>"

definition stub_env :: "result list \<Rightarrow> bool \<Rightarrow> (mode \<times> bool, mode, nat) env" where
  "stub_env rs can_plot =
     \<lparr>YOLO = (\<lambda>path. if path = ''best.pt'' then Some (stub_model rs) else None),
      Image_open = stub_open,
      st_image = stub_show,
      image_save = stub_save,
      plot = stub_plot can_plot\<rparr>"

definition jpeg_upload :: bytes where
  "jpeg_upload = [0xFF, 0xD8, 0xFF, 0xE0]"

definition png_rgba_upload :: bytes where
  "png_rgba_upload = [0x89, 0x50, 0x4E, 0x47]"

definition truncated_upload :: bytes where
  "truncated_upload = [0xFF, 0xD8]"

definition cold_start :: "(mode, nat) app_state" where
  "cold_start = \<lparr>model_cache = None, session = None, files = []\<rparr>"

definition warm_start :: "result list \<Rightarrow> (mode, nat) app_state" where
  "warm_start rs = \<lparr>model_cache = Some (stub_model rs), session = None, files = []\<rparr>"

definition one_tumor :: "result list" where
  "one_tumor = [\<lparr>boxes = [\<lparr>cls = 0, conf = 9 / 10\<rparr>]\<rparr>]"

definition faint_tumor :: "result list" where
  "faint_tumor = [\<lparr>boxes = [\<lparr>cls = 0, conf = 3 / 10\<rparr>]\<rparr>]"

definition no_boxes :: "result list" where
  "no_boxes = [\<lparr>boxes = []\<rparr>]"

definition unlabelled_class :: "result list" where
  "unlabelled_class = [\<lparr>boxes = [\<lparr>cls = 0, conf = 9 / 10\<rparr>, \<lparr>cls = 7, conf = 8 / 10\<rparr>]\<rparr>]"

lemmas stub_defs =
  stub_env_def stub_model_def stub_open_def stub_show_def stub_save_def stub_plot_def
  jpeg_upload_def png_rgba_upload_def truncated_upload_def cold_start_def warm_start_def one_tumor_def faint_tumor_def no_boxes_def
  unlabelled_class_def

lemmas script_defs =
  run_def load_model_def col1_def analyze_image_def col2_def summarize_def os_remove_def
  fresh_name_def empty_page_def

section \<open>Properties\<close>

subsection \<open>Temporary file names\<close>

lemma fresh_name_bound: "x \<in> set fs \<Longrightarrow> x < fresh_name fs"
  by (induction fs) (auto simp: fresh_name_def less_Suc_eq_le le_max_iff_disj)

lemma fresh_name_new: "fresh_name fs \<notin> set fs"
  using fresh_name_bound [of "fresh_name fs" fs] by auto

subsection \<open>The loops that write the detected classes\<close>

lemma list_all2_set2: "list_all2 P xs ys \<Longrightarrow> y \<in> set ys \<Longrightarrow> \<exists>x\<in>set xs. P x y"
  by (induction rule: list_all2_induct) auto

lemma write_boxes_ok:
  "\<forall>b\<in>set bs. nm (cls b) \<noteq> None \<Longrightarrow>
   \<exists>ls. write_boxes nm bs out = (out @ ls, None) \<and> list_all2 (reports nm) bs ls"
proof (induction bs arbitrary: out)
  case Nil
  then show ?case by simp
next
  case (Cons a bs)
  then obtain n where n: "nm (cls a) = Some n" by auto
  have "\<forall>b\<in>set bs. nm (cls b) \<noteq> None" using Cons.prems by simp
  from Cons.IH [OF this, of "out @ [(n, conf a)]"] obtain ls where
    ls: "write_boxes nm bs (out @ [(n, conf a)]) = ((out @ [(n, conf a)]) @ ls, None)"
        "list_all2 (reports nm) bs ls"
    by blast
  have "write_boxes nm (a # bs) out = (out @ ((n, conf a) # ls), None)"
    using n ls(1) by simp
  moreover have "list_all2 (reports nm) (a # bs) ((n, conf a) # ls)"
    using n ls(2) by (simp add: reports_def)
  ultimately show ?case by blast
qed

lemma write_boxes_fail:
  "b \<in> set bs \<Longrightarrow> nm (cls b) = None \<Longrightarrow>
   \<exists>ls c. write_boxes nm bs out = (out @ ls, Some (KeyError c)) \<and> nm c = None \<and>
     (\<forall>l\<in>set ls. \<exists>b'\<in>set bs. reports nm b' l)"
proof (induction bs arbitrary: out)
  case Nil
  then show ?case by simp
next
  case (Cons a bs)
  show ?case
  proof (cases "nm (cls a)")
    case None
    then have "write_boxes nm (a # bs) out = (out @ [], Some (KeyError (cls a)))"
      by simp
    moreover have "\<forall>l\<in>set []. \<exists>b'\<in>set (a # bs). reports nm b' l" by simp
    ultimately show ?thesis using None by blast
  next
    case (Some n)
    with Cons.prems have "b \<in> set bs" by auto
    from Cons.IH [OF this Cons.prems(2), of "out @ [(n, conf a)]"] obtain ls c where
      h: "write_boxes nm bs (out @ [(n, conf a)]) =
            ((out @ [(n, conf a)]) @ ls, Some (KeyError c))"
         "nm c = None"
         "\<forall>l\<in>set ls. \<exists>b'\<in>set bs. reports nm b' l"
      by blast
    have 1: "write_boxes nm (a # bs) out = (out @ ((n, conf a) # ls), Some (KeyError c))"
      using Some h(1) by simp
    have 2: "\<forall>l\<in>set ((n, conf a) # ls). \<exists>b'\<in>set (a # bs). reports nm b' l"
      using Some h(3) by (auto simp: reports_def)
    from 1 2 h(2) show ?thesis by blast
  qed
qed

lemma write_results_ok:
  "\<forall>r\<in>set rs. \<forall>b\<in>set (boxes r). nm (cls b) \<noteq> None \<Longrightarrow>
   \<exists>ls. write_results nm rs out = (out @ ls, None) \<and>
     list_all2 (reports nm) (concat (map boxes rs)) ls"
proof (induction rs arbitrary: out)
  case Nil
  then show ?case by simp
next
  case (Cons r rs)
  have "\<forall>b\<in>set (boxes r). nm (cls b) \<noteq> None" using Cons.prems by simp
  from write_boxes_ok [OF this, of out] obtain l1 where
    l1: "write_boxes nm (boxes r) out = (out @ l1, None)" "list_all2 (reports nm) (boxes r) l1"
    by blast
  have "\<forall>r\<in>set rs. \<forall>b\<in>set (boxes r). nm (cls b) \<noteq> None" using Cons.prems by simp
  from Cons.IH [OF this, of "out @ l1"] obtain l2 where
    l2: "write_results nm rs (out @ l1) = ((out @ l1) @ l2, None)"
        "list_all2 (reports nm) (concat (map boxes rs)) l2"
    by blast
  have "write_results nm (r # rs) out = (out @ (l1 @ l2), None)"
    using l1(1) l2(1) by simp
  moreover have "list_all2 (reports nm) (concat (map boxes (r # rs))) (l1 @ l2)"
    using l1(2) l2(2) by (simp add: list_all2_appendI)
  ultimately show ?case by blast
qed

lemma write_results_fail:
  "r \<in> set rs \<Longrightarrow> b \<in> set (boxes r) \<Longrightarrow> nm (cls b) = None \<Longrightarrow>
   \<exists>ls c. write_results nm rs out = (out @ ls, Some (KeyError c)) \<and> nm c = None \<and>
     (\<forall>l\<in>set ls. \<exists>r'\<in>set rs. \<exists>b'\<in>set (boxes r'). reports nm b' l)"
proof (induction rs arbitrary: out)
  case Nil
  then show ?case by simp
next
  case (Cons a rs)
  show ?case
  proof (cases "\<forall>b'\<in>set (boxes a). nm (cls b') \<noteq> None")
    case True
    from write_boxes_ok [OF True, of out] obtain l1 where
      l1: "write_boxes nm (boxes a) out = (out @ l1, None)"
          "list_all2 (reports nm) (boxes a) l1"
      by blast
    have lab1: "\<forall>l\<in>set l1. \<exists>b'\<in>set (boxes a). reports nm b' l"
      using list_all2_set2 [OF l1(2)] by blast
    have "r \<noteq> a" using True Cons.prems(2,3) by auto
    then have "r \<in> set rs" using Cons.prems(1) by simp
    from Cons.IH [OF this Cons.prems(2,3), of "out @ l1"] obtain l2 c where
      l2: "write_results nm rs (out @ l1) = ((out @ l1) @ l2, Some (KeyError c))"
          "nm c = None"
          "\<forall>l\<in>set l2. \<exists>r'\<in>set rs. \<exists>b'\<in>set (boxes r'). reports nm b' l"
      by blast
    have 1: "write_results nm (a # rs) out = (out @ (l1 @ l2), Some (KeyError c))"
      using l1(1) l2(1) by simp
    have 2: "\<forall>l\<in>set (l1 @ l2). \<exists>r'\<in>set (a # rs). \<exists>b'\<in>set (boxes r'). reports nm b' l"
      using lab1 l2(3) by auto
    from 1 2 l2(2) show ?thesis by blast
  next
    case False
    then obtain b0 where b0: "b0 \<in> set (boxes a)" "nm (cls b0) = None" by auto
    from write_boxes_fail [of b0 "boxes a" nm out, OF b0] obtain l1 c where
      l1: "write_boxes nm (boxes a) out = (out @ l1, Some (KeyError c))"
          "nm c = None"
          "\<forall>l\<in>set l1. \<exists>b'\<in>set (boxes a). reports nm b' l"
      by blast
    have 1: "write_results nm (a # rs) out = (out @ l1, Some (KeyError c))"
      using l1(1) by simp
    have 2: "\<forall>l\<in>set l1. \<exists>r'\<in>set (a # rs). \<exists>b'\<in>set (boxes r'). reports nm b' l"
      using l1(3) by auto
    from 1 2 l1(2) show ?thesis by blast
  qed
qed

lemma write_results_no_boxes:
  "\<forall>r\<in>set rs. boxes r = [] \<Longrightarrow> write_results nm rs out = (out, None)"
  by (induction rs arbitrary: out) simp_all

subsection \<open>The summary\<close>

lemma summarize_some:
  "boxes r0 \<noteq> [] \<Longrightarrow> nm (cls (hd (boxes r0))) = Some n \<Longrightarrow>
   summarize nm (r0 # rest) =
     Inr \<lparr>total_detections = length (boxes r0), top_class = n,
          top_conf = conf (hd (boxes r0))\<rparr>"
  by (simp add: summarize_def)

lemma summarize_none:
  "boxes r0 = [] \<Longrightarrow>
   summarize nm (r0 # rest) = Inr \<lparr>total_detections = 0, top_class = ''N/A'', top_conf = 0\<rparr>"
  by (simp add: summarize_def)

lemma summarize_labelled:
  "\<forall>b\<in>set (boxes r0). nm (cls b) \<noteq> None \<Longrightarrow> \<exists>sm. summarize nm (r0 # rest) = Inr sm"
proof (cases "boxes r0")
  case Nil
  then show ?thesis by (simp add: summarize_none)
next
  case (Cons b bs)
  assume "\<forall>b\<in>set (boxes r0). nm (cls b) \<noteq> None"
  with Cons obtain n where "nm (cls (hd (boxes r0))) = Some n" by auto
  with Cons show ?thesis by (simp add: summarize_some)
qed

subsection \<open>The two columns\<close>

lemma col2_completes:
  assumes "session s = Some st"
    and "write_results (names m) (results st) [] = (ls, None)"
    and "summarize (names m) (results st) = Inr sm"
    and "temp_file_path st \<in> set (files s)"
  shows "col2 m s pg =
           \<lparr>final = s\<lparr>files := removeAll (temp_file_path st) (files s)\<rparr>,
            shown = pg\<lparr>result_image := Some (result_img st), detected := ls,
                       metrics := Some sm, download := Some (result_img st)\<rparr>,
            raised = None\<rparr>"
  using assms by (simp add: col2_def os_remove_def)

lemma col2_loop_raises:
  assumes "session s = Some st"
    and "write_results (names m) (results st) [] = (ls, Some x)"
  shows "col2 m s pg =
           \<lparr>final = s, shown = pg\<lparr>result_image := Some (result_img st), detected := ls\<rparr>,
            raised = Some x\<rparr>"
  using assms by (simp add: col2_def)

lemma col2_session: "session (final (col2 m s pg)) = session s"
  by (simp add: col2_def Let_def split: option.splits prod.splits sum.splits)

lemma run_analysis:
  assumes "load_model e s = Inr (m, s0)"
    and "Image_open e bs = Some im"
    and "st_image e im"
    and "image_save e im = Some f"
    and "predict m f = Some (r0 # rest)"
    and "plot e (names m) r0 = Inr img"
  shows "run e (Some bs) True s =
           col2 m
             (s0\<lparr>files := files s0 @ [fresh_name (files s0)],
                 session := Some \<lparr>results = r0 # rest, result_img = img,
                                  temp_file_path = fresh_name (files s0)\<rparr>\<rparr>)
             (empty_page\<lparr>uploaded_image := Some im\<rparr>)"
  using assms by (simp add: run_def col1_def analyze_image_def Let_def)

lemma run_plot_raises:
  assumes "load_model e s = Inr (m, s0)"
    and "Image_open e bs = Some im"
    and "st_image e im"
    and "image_save e im = Some f"
    and "predict m f = Some (r0 # rest)"
    and "plot e (names m) r0 = Inl x"
  shows "run e (Some bs) True s =
           \<lparr>final = s0\<lparr>files := files s0 @ [fresh_name (files s0)]\<rparr>,
            shown = empty_page\<lparr>uploaded_image := Some im\<rparr>,
            raised = Some x\<rparr>"
  using assms by (simp add: run_def col1_def analyze_image_def Let_def)

lemma load_model_cases:
  assumes "load_model e s = Inr (m, s0)"
  shows "model_cache s0 = Some m \<and> session s0 = session s \<and> files s0 = files s \<and>
         (model_cache s \<noteq> None \<longrightarrow> s0 = s)"
  using assms by (auto simp: load_model_def split: option.splits)

lemma run_completes:
  assumes "load_model e s = Inr (m, s0)"
    and "Image_open e bs = Some im"
    and "st_image e im"
    and "image_save e im = Some f"
    and "predict m f = Some (r0 # rest)"
    and "plot e (names m) r0 = Inr img"
    and "write_results (names m) (r0 # rest) [] = (ls, None)"
    and "summarize (names m) (r0 # rest) = Inr sm"
  shows "run e (Some bs) True s =
           \<lparr>final = s0\<lparr>session := Some \<lparr>results = r0 # rest, result_img = img,
                                          temp_file_path = fresh_name (files s0)\<rparr>\<rparr>,
            shown = empty_page\<lparr>uploaded_image := Some im, result_image := Some img,
                               detected := ls, metrics := Some sm, download := Some img\<rparr>,
            raised = None\<rparr>"
proof -
  let ?p = "fresh_name (files s0)"
  let ?st = "\<lparr>results = r0 # rest, result_img = img, temp_file_path = ?p\<rparr>"
  let ?s1 = "s0\<lparr>files := files s0 @ [?p], session := Some ?st\<rparr>"
  have gone: "removeAll ?p (files s0 @ [?p]) = files s0"
    using fresh_name_new [of "files s0"] by simp
  show ?thesis
    using run_analysis [OF assms(1-6)]
      col2_completes [of ?s1 ?st m ls sm "empty_page\<lparr>uploaded_image := Some im\<rparr>"]
      assms(7,8) gone
    by simp
qed

lemma run_loop_raises:
  assumes "load_model e s = Inr (m, s0)"
    and "Image_open e bs = Some im"
    and "st_image e im"
    and "image_save e im = Some f"
    and "predict m f = Some (r0 # rest)"
    and "plot e (names m) r0 = Inr img"
    and "write_results (names m) (r0 # rest) [] = (ls, Some x)"
  shows "run e (Some bs) True s =
           \<lparr>final = s0\<lparr>files := files s0 @ [fresh_name (files s0)],
                        session := Some \<lparr>results = r0 # rest, result_img = img,
                                         temp_file_path = fresh_name (files s0)\<rparr>\<rparr>,
            shown = empty_page\<lparr>uploaded_image := Some im, result_image := Some img,
                               detected := ls\<rparr>,
            raised = Some x\<rparr>"
proof -
  let ?p = "fresh_name (files s0)"
  let ?st = "\<lparr>results = r0 # rest, result_img = img, temp_file_path = ?p\<rparr>"
  let ?s1 = "s0\<lparr>files := files s0 @ [?p], session := Some ?st\<rparr>"
  show ?thesis
    using run_analysis [OF assms(1-6)]
      col2_loop_raises [of ?s1 ?st m ls x "empty_page\<lparr>uploaded_image := Some im\<rparr>"]
      assms(7)
    by simp
qed

subsection \<open>The test doubles\<close>

lemma stub_load:
  "load_model (stub_env rs cp) cold_start =
     Inr (stub_model rs, cold_start\<lparr>model_cache := Some (stub_model rs)\<rparr>)"
  by (simp add: load_model_def stub_env_def cold_start_def)

lemma stub_load_warm:
  "load_model (stub_env rs cp) (warm_start rs) = Inr (stub_model rs, warm_start rs)"
  by (simp add: load_model_def warm_start_def)

lemma stub_open_jpeg: "Image_open (stub_env rs cp) jpeg_upload = Some (RGB, True)"
  by (simp add: stub_env_def stub_open_def jpeg_upload_def)

lemma stub_open_png: "Image_open (stub_env rs cp) png_rgba_upload = Some (RGBA, True)"
  by (simp add: stub_env_def stub_open_def png_rgba_upload_def)

lemma stub_open_truncated: "Image_open (stub_env rs cp) truncated_upload = Some (RGB, False)"
  by (simp add: stub_env_def stub_open_def truncated_upload_def)

lemma stub_open_empty: "Image_open (stub_env rs cp) [] = None"
  by (simp add: stub_env_def stub_open_def)

lemma stub_show_complete: "st_image (stub_env rs cp) (md, True)"
  by (simp add: stub_env_def stub_show_def)

lemma stub_show_truncated: "\<not> st_image (stub_env rs cp) (md, False)"
  by (simp add: stub_env_def stub_show_def)

lemma stub_save_rgb: "image_save (stub_env rs cp) (RGB, True) = Some RGB"
  by (simp add: stub_env_def stub_save_def)

lemma stub_save_rgba: "image_save (stub_env rs cp) (RGBA, c) = None"
  by (simp add: stub_env_def stub_save_def)

lemma stub_predict: "predict (stub_model rs) f = Some rs"
  by (simp add: stub_model_def)


lemma stub_plot_no_boxes: "plot (stub_env rs True) nm \<lparr>boxes = []\<rparr> = Inr 0"
  by (simp add: stub_env_def stub_plot_def)

lemma stub_plot_fails:
  "plot (stub_env rs False) (names (stub_model rs')) \<lparr>boxes = [\<lparr>cls = 0, conf = c\<rparr>]\<rparr> =
     Inl PlotError"
  by (simp add: stub_env_def stub_plot_def stub_model_def)

lemma stub_plot_unlabelled:
  "plot (stub_env rs cp) (names (stub_model rs'))
     \<lparr>boxes = [\<lparr>cls = 0, conf = c\<rparr>, \<lparr>cls = 7, conf = d\<rparr>]\<rparr> = Inl (KeyError 7)"
  by (simp add: stub_env_def stub_plot_def stub_model_def)

section \<open>The claims\<close>

text \<open>
  In the theorems below, an \<^emph>\<open>analysis\<close> is the run that the click on "Analyze Image"
  starts: \<open>run e (Some bs) True s\<close>. A \<^emph>\<open>valid image\<close> is an upload that \<open>Image_open\<close>
  opens, \<open>st_image\<close> shows and \<open>image_save\<close> writes. The script takes no confidence
  threshold: the detections of an analysis are the boxes that the model call returns, and
  the threshold in force is the one the model call applies itself.
\<close>





text \<open>
  Claim C4. For every analysis in which the model returns no box, the run completes
  without an exception, the summary shows a total of 0, and no top detection: the script
  shows the placeholders \<open>''N/A''\<close> and 0 in its place, and writes no detection line.
\<close>

theorem no_detections_is_success:
  assumes "load_model e s = Inr (m, s0)"
    and "Image_open e bs = Some im"
    and "st_image e im"
    and "image_save e im = Some f"
    and "predict m f = Some (r0 # rest)"
    and "plot e (names m) r0 = Inr img"
    and "\<forall>r\<in>set (r0 # rest). boxes r = []"
  shows "raised (run e (Some bs) True s) = None \<and>
         metrics (shown (run e (Some bs) True s)) =
           Some \<lparr>total_detections = 0, top_class = ''N/A'', top_conf = 0\<rparr> \<and>
         detected (shown (run e (Some bs) True s)) = []"
proof -
  have ls: "write_results (names m) (r0 # rest) [] = ([], None)"
    using write_results_no_boxes [OF assms(7)] .
  have "boxes r0 = []" using assms(7) by simp
  note sm = summarize_none [OF this, of "names m" rest]
  note res = run_completes [OF assms(1-6) ls sm]
  show ?thesis by (simp add: res)
qed

theorem no_detections_is_success_witness:
  "raised (run (stub_env no_boxes True) (Some jpeg_upload) True cold_start) = None \<and>
   metrics (shown (run (stub_env no_boxes True) (Some jpeg_upload) True cold_start)) =
     Some \<lparr>total_detections = 0, top_class = ''N/A'', top_conf = 0\<rparr> \<and>
   detected (shown (run (stub_env no_boxes True) (Some jpeg_upload) True cold_start)) = []"
proof -
  have h4: "predict (stub_model no_boxes) RGB = Some [\<lparr>boxes = []\<rparr>]"
    by (simp add: stub_predict no_boxes_def)
  have h6: "\<forall>r\<in>set [\<lparr>boxes = []\<rparr>]. boxes r = []"
    by simp
  show ?thesis
    by (rule no_detections_is_success
          [OF stub_load stub_open_jpeg stub_show_complete stub_save_rgb h4
              stub_plot_no_boxes h6])
qed

text \<open>
  Claim C5. An upload is not a valid image when \<open>Image.open\<close> raises on it (line 84: the
  empty upload, bytes of no image format), or when it opens and the first decoding of its
  pixel data raises (line 85: a truncated file, which PIL opens lazily). For every such
  upload the run ends with that decoding exception (the specification's DecodeError),
  shows nothing, and leaves the state as \<open>load_model\<close> of line 71 returned it: session
  and files are untouched, the cache holds the model, and a model that was cached before
  the run leaves the whole state unchanged. On a cold start the only change is the
  completed load of line 71, which precedes the decoding.
\<close>

theorem decode_failure_leaves_state:
  assumes "load_model e s = Inr (m, s0)"
    and "Image_open e bs = None \<or> (\<exists>im. Image_open e bs = Some im \<and> \<not> st_image e im)"
  shows "run e (Some bs) pressed s =
           \<lparr>final = s0, shown = empty_page,
            raised = Some (if Image_open e bs = None then ImageOpenError
                           else ImageShowError)\<rparr> \<and>
         session s0 = session s \<and> files s0 = files s \<and> model_cache s0 = Some m \<and>
         (\<forall>m'. model_cache s = Some m' \<longrightarrow> s0 = s)"
proof -
  have "run e (Some bs) pressed s =
          \<lparr>final = s0, shown = empty_page,
           raised = Some (if Image_open e bs = None then ImageOpenError
                          else ImageShowError)\<rparr>"
    using assms by (auto simp: run_def col1_def)
  then show ?thesis
    using load_model_cases [OF assms(1)] by simp
qed

theorem decode_failure_leaves_state_witness:
  "run (stub_env one_tumor True) (Some []) True (warm_start one_tumor) =
     \<lparr>final = warm_start one_tumor, shown = empty_page, raised = Some ImageOpenError\<rparr> \<and>
   run (stub_env one_tumor True) (Some truncated_upload) True (warm_start one_tumor) =
     \<lparr>final = warm_start one_tumor, shown = empty_page, raised = Some ImageShowError\<rparr> \<and>
   run (stub_env one_tumor True) (Some []) True cold_start =
     \<lparr>final = cold_start\<lparr>model_cache := Some (stub_model one_tumor)\<rparr>, shown = empty_page,
      raised = Some ImageOpenError\<rparr>"
proof -
  have d1: "Image_open (stub_env one_tumor True) [] = None \<or>
            (\<exists>im. Image_open (stub_env one_tumor True) [] = Some im \<and>
                  \<not> st_image (stub_env one_tumor True) im)"
    by (simp add: stub_open_empty)
  have d2: "Image_open (stub_env one_tumor True) truncated_upload = None \<or>
            (\<exists>im. Image_open (stub_env one_tumor True) truncated_upload = Some im \<and>
                  \<not> st_image (stub_env one_tumor True) im)"
    by (simp add: stub_open_truncated stub_show_truncated)
  note empty_warm = conjunct1 [OF decode_failure_leaves_state
    [where pressed = True, OF stub_load_warm [of one_tumor True] d1]]
  note truncated_warm = conjunct1 [OF decode_failure_leaves_state
    [where pressed = True, OF stub_load_warm [of one_tumor True] d2]]
  note empty_cold = conjunct1 [OF decode_failure_leaves_state
    [where pressed = True, OF stub_load [of one_tumor True] d1]]
  show ?thesis
    using empty_warm truncated_warm empty_cold
    by (simp add: stub_open_empty stub_open_truncated)
qed

text \<open>
  Claim C6. In every analysis, each detection line that is written carries the label of
  the class index of a box the model returned, and a run that completes has found a label
  for every class index. When the model returns a class index that has no label, the run
  fails and shows no summary: either \<open>plot\<close> raises at line 99, with nothing listed or
  stored, or the listing raises \<open>KeyError\<close> at line 128. The exception is \<open>KeyError\<close> of
  an index without a label (the specification's LabelMappingError) whenever that is the
  only exception \<open>plot\<close> raises on the result, as it is for the library's \<open>plot\<close>, which
  reads the label of every box it draws.
\<close>

theorem unlabelled_class_raises_KeyError:
  assumes "load_model e s = Inr (m, s0)"
    and "Image_open e bs = Some im"
    and "st_image e im"
    and "image_save e im = Some f"
    and "predict m f = Some (r0 # rest)"
  shows "(\<forall>l\<in>set (detected (shown (run e (Some bs) True s))).
            \<exists>r\<in>set (r0 # rest). \<exists>b\<in>set (boxes r). reports (names m) b l) \<and>
         ((\<exists>r\<in>set (r0 # rest). \<exists>b\<in>set (boxes r). names m (cls b) = None) \<longrightarrow>
            raised (run e (Some bs) True s) \<noteq> None \<and>
            metrics (shown (run e (Some bs) True s)) = None \<and>
            ((\<forall>x. plot e (names m) r0 = Inl x \<longrightarrow> (\<exists>c. x = KeyError c \<and> names m c = None)) \<longrightarrow>
               (\<exists>c. raised (run e (Some bs) True s) = Some (KeyError c) \<and>
                    names m c = None))) \<and>
         (raised (run e (Some bs) True s) = None \<longrightarrow>
            (\<forall>r\<in>set (r0 # rest). \<forall>b\<in>set (boxes r). names m (cls b) \<noteq> None))"
proof (cases "plot e (names m) r0")
  case (Inl x)
  note res = run_plot_raises [OF assms Inl]
  have 1: "detected (shown (run e (Some bs) True s)) = []"
    by (simp add: res empty_page_def)
  have 2: "raised (run e (Some bs) True s) = Some x"
    by (simp add: res)
  have 3: "metrics (shown (run e (Some bs) True s)) = None"
    by (simp add: res empty_page_def)
  show ?thesis
    unfolding 1 2 3 using Inl by auto
next
  case (Inr img)
  note drawn = this
  show ?thesis
  proof (cases "\<exists>r\<in>set (r0 # rest). \<exists>b\<in>set (boxes r). names m (cls b) = None")
    case True
    then obtain r b where
      rb: "r \<in> set (r0 # rest)" "b \<in> set (boxes r)" "names m (cls b) = None"
      by blast
    from write_results_fail [of r "r0 # rest" b "names m" "[]", OF rb] obtain ls c where
      ls: "write_results (names m) (r0 # rest) [] = (ls, Some (KeyError c))"
          "names m c = None"
          "\<forall>l\<in>set ls. \<exists>r'\<in>set (r0 # rest). \<exists>b'\<in>set (boxes r'). reports (names m) b' l"
      by auto
    note res = run_loop_raises [OF assms drawn ls(1)]
    have 1: "detected (shown (run e (Some bs) True s)) = ls"
      by (simp add: res)
    have 2: "raised (run e (Some bs) True s) = Some (KeyError c)"
      by (simp add: res)
    have 3: "metrics (shown (run e (Some bs) True s)) = None"
      by (simp add: res empty_page_def)
    show ?thesis
      unfolding 1 2 3 using ls(2,3) by simp
  next
    case False
    then have lab: "\<forall>r\<in>set (r0 # rest). \<forall>b\<in>set (boxes r). names m (cls b) \<noteq> None"
      by simp
    from write_results_ok [of "r0 # rest" "names m" "[]"] lab obtain ls where
      ls: "write_results (names m) (r0 # rest) [] = (ls, None)"
          "list_all2 (reports (names m)) (concat (map boxes (r0 # rest))) ls"
      by auto
    have "\<forall>b\<in>set (boxes r0). names m (cls b) \<noteq> None" using lab by simp
    from summarize_labelled [of r0 "names m" rest, OF this] obtain sm where
      sm: "summarize (names m) (r0 # rest) = Inr sm" by blast
    note res = run_completes [OF assms drawn ls(1) sm]
    have 1: "detected (shown (run e (Some bs) True s)) = ls"
      by (simp add: res)
    have 2: "\<forall>l\<in>set ls. \<exists>r\<in>set (r0 # rest). \<exists>b\<in>set (boxes r). reports (names m) b l"
    proof
      fix l assume "l \<in> set ls"
      from list_all2_set2 [OF ls(2) this] obtain b where
        "b \<in> set (concat (map boxes (r0 # rest)))" "reports (names m) b l" by blast
      then show "\<exists>r\<in>set (r0 # rest). \<exists>b\<in>set (boxes r). reports (names m) b l"
        by auto
    qed
    show ?thesis
      unfolding 1 using 2 False lab by blast
  qed
qed

theorem unlabelled_class_raises_KeyError_witness:
  "(\<exists>c. raised (run (stub_env unlabelled_class True) (Some jpeg_upload) True cold_start) =
          Some (KeyError c) \<and>
        names (stub_model unlabelled_class) c = None) \<and>
   metrics (shown (run (stub_env unlabelled_class True) (Some jpeg_upload) True
     cold_start)) = None"
proof -
  have h4: "predict (stub_model unlabelled_class) RGB =
              Some [\<lparr>boxes = [\<lparr>cls = 0, conf = 9 / 10\<rparr>, \<lparr>cls = 7, conf = 8 / 10\<rparr>]\<rparr>]"
    by (simp add: stub_predict unlabelled_class_def)
  have un: "\<exists>r\<in>set [\<lparr>boxes = [\<lparr>cls = 0, conf = 9 / 10\<rparr>, \<lparr>cls = 7, conf = 8 / 10\<rparr>]\<rparr>].
              \<exists>b\<in>set (boxes r). names (stub_model unlabelled_class) (cls b) = None"
    by (simp add: stub_model_def)
  have pl: "\<forall>x. plot (stub_env unlabelled_class True) (names (stub_model unlabelled_class))
                 \<lparr>boxes = [\<lparr>cls = 0, conf = 9 / 10\<rparr>, \<lparr>cls = 7, conf = 8 / 10\<rparr>]\<rparr> = Inl x \<longrightarrow>
              (\<exists>c. x = KeyError c \<and> names (stub_model unlabelled_class) c = None)"
    unfolding stub_plot_unlabelled by (auto simp: stub_model_def)
  note key = unlabelled_class_raises_KeyError
    [OF stub_load [of unlabelled_class True] stub_open_jpeg stub_show_complete
        stub_save_rgb h4]
  note fails = mp [OF conjunct1 [OF conjunct2 [OF key]] un]
  have a: "\<exists>c. raised (run (stub_env unlabelled_class True) (Some jpeg_upload) True
                  cold_start) = Some (KeyError c) \<and>
               names (stub_model unlabelled_class) c = None"
    by (rule mp [OF conjunct2 [OF conjunct2 [OF fails]] pl])
  have b: "metrics (shown (run (stub_env unlabelled_class True) (Some jpeg_upload) True
             cold_start)) = None"
    by (rule conjunct1 [OF conjunct2 [OF fails]])
  from a b show ?thesis by (rule conjI)
qed

text \<open>
  Claim C8, as stated: a failure while rendering the annotated image still returns the
  numeric results. The script does not: when \<open>plot\<close> raises after the model has returned
  one detection, the run ends with that exception, shows neither a detection line nor a
  summary, and stores nothing in the session.
\<close>

theorem plot_failure_counterexample:
  "raised (run (stub_env one_tumor False) (Some jpeg_upload) True cold_start) =
     Some PlotError \<and>
   metrics (shown (run (stub_env one_tumor False) (Some jpeg_upload) True cold_start)) =
     None \<and>
   detected (shown (run (stub_env one_tumor False) (Some jpeg_upload) True cold_start)) =
     [] \<and>
   session (final (run (stub_env one_tumor False) (Some jpeg_upload) True cold_start)) =
     None"
  by (simp add: script_defs stub_defs)

text \<open>
  Claim C8, amended. A failure while rendering the annotated image is fatal to the
  analysis: the run ends with the exception of \<open>plot\<close>, the page shows the uploaded image
  only, and the state is the one after the model load with the temporary file added; the
  results that the model returned are not stored in the session and not shown.
\<close>

theorem plot_failure_aborts_run:
  assumes "load_model e s = Inr (m, s0)"
    and "Image_open e bs = Some im"
    and "st_image e im"
    and "image_save e im = Some f"
    and "predict m f = Some (r0 # rest)"
    and "plot e (names m) r0 = Inl x"
  shows "run e (Some bs) True s =
           \<lparr>final = s0\<lparr>files := files s0 @ [fresh_name (files s0)]\<rparr>,
            shown = empty_page\<lparr>uploaded_image := Some im\<rparr>,
            raised = Some x\<rparr>"
  using assms by (simp add: run_def col1_def analyze_image_def Let_def)

theorem plot_failure_aborts_run_witness:
  "run (stub_env one_tumor False) (Some jpeg_upload) True cold_start =
     \<lparr>final = (cold_start\<lparr>model_cache := Some (stub_model one_tumor)\<rparr>)
               \<lparr>files := files (cold_start\<lparr>model_cache := Some (stub_model one_tumor)\<rparr>) @
                  [fresh_name (files (cold_start\<lparr>model_cache :=
                     Some (stub_model one_tumor)\<rparr>))]\<rparr>,
      shown = empty_page\<lparr>uploaded_image := Some (RGB, True)\<rparr>,
      raised = Some PlotError\<rparr>"
proof -
  have h4: "predict (stub_model one_tumor) RGB = Some [\<lparr>boxes = [\<lparr>cls = 0, conf = 9 / 10\<rparr>]\<rparr>]"
    by (simp add: stub_predict one_tumor_def)
  show ?thesis
    by (rule plot_failure_aborts_run
          [OF stub_load stub_open_jpeg stub_show_complete stub_save_rgb h4 stub_plot_fails])
qed

text \<open>
  Claim C9 at a failing input: the analysis of an RGBA upload on a fresh process. The
  temporary file is created, \<open>image.save\<close> raises, and the run ends with the file
  (path 1) still on disk: line 156, which removes it, is not reached.
\<close>

theorem temp_file_left_after_failed_save:
  "raised (run (stub_env one_tumor True) (Some png_rgba_upload) True cold_start) =
     Some ImageSaveError \<and>
   files (final (run (stub_env one_tumor True) (Some png_rgba_upload) True cold_start)) =
     [1]"
  by (simp add: script_defs stub_defs)

text \<open>
  Claim C10. An analysis writes the opened image, as it is, to the temporary file
  before the model is called. When the write fails (an image whose mode JPEG cannot
  hold), the run ends with the exception of \<open>image.save\<close>, whatever the model would
  return: nothing of a result is shown or stored, no other error is raised, and the
  image is not converted. When the write succeeds and the run completes, the results in
  the session are those of the model on the written file.
\<close>

theorem failed_save_aborts_before_model:
  assumes "load_model e s = Inr (m, s0)"
    and "Image_open e bs = Some im"
    and "st_image e im"
  shows "(image_save e im = None \<longrightarrow>
            run e (Some bs) True s =
              \<lparr>final = s0\<lparr>files := files s0 @ [fresh_name (files s0)]\<rparr>,
               shown = empty_page\<lparr>uploaded_image := Some im\<rparr>,
               raised = Some ImageSaveError\<rparr>) \<and>
         (\<forall>f. image_save e im = Some f \<longrightarrow> raised (run e (Some bs) True s) = None \<longrightarrow>
            (\<exists>st. session (final (run e (Some bs) True s)) = Some st \<and>
                  predict m f = Some (results st)))"
proof (intro conjI impI allI)
  assume "image_save e im = None"
  with assms show "run e (Some bs) True s =
      \<lparr>final = s0\<lparr>files := files s0 @ [fresh_name (files s0)]\<rparr>,
       shown = empty_page\<lparr>uploaded_image := Some im\<rparr>,
       raised = Some ImageSaveError\<rparr>"
    by (simp add: run_def col1_def analyze_image_def Let_def)
next
  fix f
  assume sv: "image_save e im = Some f"
    and ok: "raised (run e (Some bs) True s) = None"
  show "\<exists>st. session (final (run e (Some bs) True s)) = Some st \<and>
             predict m f = Some (results st)"
  proof (cases "predict m f")
    case None
    with assms sv have "raised (run e (Some bs) True s) = Some ModelCallError"
      by (simp add: run_def col1_def analyze_image_def Let_def)
    with ok show ?thesis by simp
  next
    case (Some rs)
    note called = this
    show ?thesis
    proof (cases rs)
      case Nil
      with assms sv called have "raised (run e (Some bs) True s) = Some IndexError"
        by (simp add: run_def col1_def analyze_image_def Let_def)
      with ok show ?thesis by simp
    next
      case (Cons r0 rest)
      note split = this
      have pr: "predict m f = Some (r0 # rest)" using called split by simp
      show ?thesis
      proof (cases "plot e (names m) r0")
        case (Inl x)
        have "raised (run e (Some bs) True s) = Some x"
          by (simp add: run_plot_raises [OF assms sv pr Inl])
        with ok show ?thesis by simp
      next
        case (Inr img)
        have "session (final (run e (Some bs) True s)) =
                Some \<lparr>results = r0 # rest, result_img = img,
                      temp_file_path = fresh_name (files s0)\<rparr>"
          by (simp add: run_analysis [OF assms sv pr Inr] col2_session)
        then show ?thesis using pr by simp
      qed
    qed
  qed
qed

theorem failed_save_aborts_before_model_witness:
  "run (stub_env one_tumor True) (Some png_rgba_upload) True cold_start =
     \<lparr>final = (cold_start\<lparr>model_cache := Some (stub_model one_tumor)\<rparr>)
               \<lparr>files := files (cold_start\<lparr>model_cache := Some (stub_model one_tumor)\<rparr>) @
                  [fresh_name (files (cold_start\<lparr>model_cache :=
                     Some (stub_model one_tumor)\<rparr>))]\<rparr>,
      shown = empty_page\<lparr>uploaded_image := Some (RGBA, True)\<rparr>,
      raised = Some ImageSaveError\<rparr> \<and>
   (\<exists>st. session (final (run (stub_env one_tumor True) (Some jpeg_upload) True
             cold_start)) = Some st \<and>
         predict (stub_model one_tumor) RGB = Some (results st))"
proof
  note png = failed_save_aborts_before_model
    [OF stub_load [of one_tumor True] stub_open_png [of one_tumor True] stub_show_complete]
  show "run (stub_env one_tumor True) (Some png_rgba_upload) True cold_start =
     \<lparr>final = (cold_start\<lparr>model_cache := Some (stub_model one_tumor)\<rparr>)
               \<lparr>files := files (cold_start\<lparr>model_cache := Some (stub_model one_tumor)\<rparr>) @
                  [fresh_name (files (cold_start\<lparr>model_cache :=
                     Some (stub_model one_tumor)\<rparr>))]\<rparr>,
      shown = empty_page\<lparr>uploaded_image := Some (RGBA, True)\<rparr>,
      raised = Some ImageSaveError\<rparr>"
    by (rule mp [OF conjunct1 [OF png] stub_save_rgba])
next
  note jpeg = failed_save_aborts_before_model
    [OF stub_load [of one_tumor True] stub_open_jpeg [of one_tumor True] stub_show_complete]
  have ok: "raised (run (stub_env one_tumor True) (Some jpeg_upload) True cold_start) = None"
    by (simp add: script_defs stub_defs)
  show "\<exists>st. session (final (run (stub_env one_tumor True) (Some jpeg_upload) True
             cold_start)) = Some st \<and>
         predict (stub_model one_tumor) RGB = Some (results st)"
    by (rule mp [OF mp [OF spec [OF conjunct2 [OF jpeg]] stub_save_rgb] ok])
qed

end
